theory Spec2Isabelle
  imports Main
begin

section \<open>JavaScript values\<close>

text \<open>
  The functions of \<^verbatim>\<open>src/utils.js\<close> inspect plain data: the event payload handed to
  \<^verbatim>\<open>triggerWebhook\<close> and the session object polled by \<^verbatim>\<open>waitForNestedObject\<close>.
  A value is \<^verbatim>\<open>undefined\<close>, \<^verbatim>\<open>null\<close>, a boolean, a number, a string or an object.
  An object is the list of its properties, the first entry for a key being the one a
  property read finds (an array is the object of its indices). Numbers are the integers
  (timestamps, counters); \<^verbatim>\<open>NaN\<close> and fractions do not occur in the data
  considered. Properties that a primitive inherits from its wrapper (the length of a
  string, methods) are not part of the model: a property read on a primitive gives
  \<^verbatim>\<open>undefined\<close>.
\<close>

datatype jsval =
    JUndefined
  | JNull
  | JBool bool
  | JNum int
  | JStr string
  | JObj "(string \<times> jsval) list"

text \<open>An exception value: \<^verbatim>\<open>new Error(message)\<close>, or the \<^verbatim>\<open>TypeError\<close> the
  engine raises on a property read of \<^verbatim>\<open>undefined\<close> or \<^verbatim>\<open>null\<close>.\<close>

datatype js_error = Error string | TypeError string

fun message :: "js_error \<Rightarrow> string" where
  "message (Error m) = m"
| "message (TypeError m) = m"

text \<open>The conversion to boolean that \<^verbatim>\<open>if (v)\<close>, \<^verbatim>\<open>!v\<close>, \<^verbatim>\<open>v ? a : b\<close> and
  \<^verbatim>\<open>v || w\<close> apply.\<close>

fun truthy :: "jsval \<Rightarrow> bool" where
  "truthy JUndefined = False"
| "truthy JNull = False"
| "truthy (JBool b) = b"
| "truthy (JNum n) = (n \<noteq> 0)"
| "truthy (JStr s) = (s \<noteq> [])"
| "truthy (JObj kvs) = True"

fun nullish :: "jsval \<Rightarrow> bool" where
  "nullish JUndefined = True"
| "nullish JNull = True"
| "nullish v = False"

text \<open>\<^verbatim>\<open>v[k]\<close> on a value that is neither \<^verbatim>\<open>undefined\<close> nor \<^verbatim>\<open>null\<close>.\<close>

fun get_prop :: "jsval \<Rightarrow> string \<Rightarrow> jsval" where
  "get_prop (JObj kvs) k = (case map_of kvs k of None \<Rightarrow> JUndefined | Some v \<Rightarrow> v)"
| "get_prop v k = JUndefined"

text \<open>\<^verbatim>\<open>v[k]\<close> and \<^verbatim>\<open>v.k\<close>: a \<^verbatim>\<open>TypeError\<close> on \<^verbatim>\<open>undefined\<close> and \<^verbatim>\<open>null\<close>.\<close>

definition member_access :: "jsval \<Rightarrow> string \<Rightarrow> js_error + jsval" where
  "member_access v k =
     (if nullish v then Inl (TypeError ''Cannot read properties of undefined or null'')
      else Inr (get_prop v k))"

text \<open>Optional chaining \<^verbatim>\<open>v?.k\<close>: \<^verbatim>\<open>undefined\<close> on \<^verbatim>\<open>undefined\<close> and \<^verbatim>\<open>null\<close>.\<close>

definition opt_chain :: "jsval \<Rightarrow> string \<Rightarrow> jsval" where
  "opt_chain v k = (if nullish v then JUndefined else get_prop v k)"

text \<open>\<^verbatim>\<open>v || w\<close>.\<close>

definition js_or :: "jsval \<Rightarrow> jsval \<Rightarrow> jsval" where
  "js_or v w = (if truthy v then v else w)"

text \<open>The state of a promise. \<^verbatim>\<open>Pending\<close> is the state of a promise on which neither
  \<^verbatim>\<open>resolve\<close> nor \<^verbatim>\<open>reject\<close> has been called; a promise whose executor has finished
  without scheduling anything stays in it for ever. \<^verbatim>\<open>Uncaught\<close> is a promise left
  pending by an exception that escaped a timer callback.\<close>

datatype promise = Fulfilled jsval | Rejected js_error | Pending | Uncaught js_error

fun settled :: "promise \<Rightarrow> bool" where
  "settled (Fulfilled v) = True"
| "settled (Rejected e) = True"
| "settled Pending = False"
| "settled (Uncaught e) = False"

section \<open>The event gate: \<^verbatim>\<open>checkIfEventisEnabled\<close>\<close>

text \<open>
  \<^verbatim>\<open>
  const checkIfEventisEnabled = (event) => {
    return new Promise((resolve, reject) => { if (!disabledCallbacks.includes(event)) { resolve() } })
  }
  \<close>
  \<^verbatim>\<open>disabledCallbacks\<close> comes from the configuration module, which is not among the
  sources: it is a parameter, the list of the disabled event names. The executor calls
  \<^verbatim>\<open>resolve()\<close> (the promise is fulfilled with \<^verbatim>\<open>undefined\<close>) or does nothing.
\<close>

definition checkIfEventisEnabled :: "string list \<Rightarrow> string \<Rightarrow> promise" where
  "checkIfEventisEnabled disabledCallbacks event =
     (if \<not> event \<in> set disabledCallbacks then Fulfilled JUndefined else Pending)"

text \<open>\<^verbatim>\<open>p.then(f)\<close>, and \<^verbatim>\<open>await p\<close> followed by the rest of the caller: the
  continuation runs with the value of a fulfilled promise, and never runs otherwise.\<close>

fun then_run :: "promise \<Rightarrow> (jsval \<Rightarrow> 'a) \<Rightarrow> 'a option" where
  "then_run (Fulfilled v) f = Some (f v)"
| "then_run p f = None"


section \<open>The readiness waiter: \<^verbatim>\<open>waitForNestedObject\<close>\<close>

text \<open>\<^verbatim>\<open>s.split('.')\<close>: the pieces of \<open>s\<close> between the dots, in order; a string
  without a dot, the empty string too, gives one piece.\<close>

fun split_on :: "char \<Rightarrow> string \<Rightarrow> string list" where
  "split_on c [] = [[]]"
| "split_on c (x # xs) =
     (if x = c then [] # split_on c xs
      else (case split_on c xs of
              [] \<Rightarrow> [[x]]
            | w # ws \<Rightarrow> (x # w) # ws))"

text \<open>
  The callback of the \<^verbatim>\<open>reduce\<close>, \<^verbatim>\<open>(obj, key) => obj ? obj[key] : undefined\<close>.
  An exception of the property read would end the \<^verbatim>\<open>reduce\<close>, so the accumulator
  is a result and an error is passed on.
\<close>

definition walk_step :: "js_error + jsval \<Rightarrow> string \<Rightarrow> js_error + jsval" where
  "walk_step acc key =
     (case acc of
        Inl e \<Rightarrow> Inl e
      | Inr obj \<Rightarrow> if truthy obj then member_access obj key else Inr JUndefined)"

text \<open>\<^verbatim>\<open>keys.reduce(..., rootObj)\<close>, and the whole expression
  \<^verbatim>\<open>nestedPath.split('.').reduce(..., rootObj)\<close>.\<close>

definition walk :: "jsval \<Rightarrow> string list \<Rightarrow> js_error + jsval" where
  "walk rootObj keys = foldl walk_step (Inr rootObj) keys"

definition nestedObj :: "jsval \<Rightarrow> string \<Rightarrow> js_error + jsval" where
  "nestedObj rootObj nestedPath = walk rootObj (split_on CHR ''.'' nestedPath)"

text \<open>
  \<^verbatim>\<open>
  const waitForNestedObject = (rootObj, nestedPath, maxWaitTime = 10000, interval = 100) => {
    const start = Date.now()
    return new Promise((resolve, reject) => {
      const checkObject = () => {
        const nestedObj = nestedPath.split('.').reduce((obj, key) => obj ? obj[key] : undefined, rootObj)
        if (nestedObj) {
          resolve()
        } else if (Date.now() - start > maxWaitTime) {
          console.log('Timed out waiting for nested object')
          reject(new Error('Timeout waiting for nested object'))
        } else {
          setTimeout(checkObject, interval)
        }
      }
      checkObject()
    })
  }
  \<close>
  What \<^verbatim>\<open>checkObject\<close> sees when it runs is an input: a tick is the reading of
  \<^verbatim>\<open>Date.now()\<close> at that run and the state, at that run, of the object that
  \<^verbatim>\<open>rootObj\<close> refers to (other code fills it in between two runs). The first tick is
  the run inside the executor, each later one a run started by the timer; the list of
  ticks is the part of the future that is looked at, and a promise still unsettled at
  its end is \<^verbatim>\<open>Pending\<close>. The result also counts the runs of \<^verbatim>\<open>checkObject\<close>
  and holds the lines written with \<^verbatim>\<open>console.log\<close>.
  An exception inside the executor rejects the promise; one inside a timer callback
  is uncaught and leaves it pending.
\<close>

type_synonym tick = "int \<times> jsval"

record wait_result =
  state :: promise
  polls :: nat
  console :: "string list"

fun checkObject :: "int \<Rightarrow> int \<Rightarrow> string \<Rightarrow> nat \<Rightarrow> tick list \<Rightarrow> wait_result" where
  "checkObject start maxWaitTime nestedPath n [] = \<lparr>state = Pending, polls = n,
                                                    console = []\<rparr>"
| "checkObject start maxWaitTime nestedPath n ((now, rootObj) # ticks) =
     (case nestedObj rootObj nestedPath of
        Inl e \<Rightarrow> \<lparr>state = (if n = 0 then Rejected e else Uncaught e), polls = Suc n,
                             console = []\<rparr>
      | Inr v \<Rightarrow>
          if truthy v then \<lparr>state = Fulfilled JUndefined, polls = Suc n, console = []\<rparr>
          else if now - start > maxWaitTime then
            \<lparr>state = Rejected (Error ''Timeout waiting for nested object''), polls = Suc n,
             console = [''Timed out waiting for nested object'']\<rparr>
          else checkObject start maxWaitTime nestedPath (Suc n) ticks)"

text \<open>The call itself: \<open>start\<close> is the reading of \<^verbatim>\<open>Date.now()\<close> on entry, an argument
  left out (\<open>None\<close>) takes its default. \<^verbatim>\<open>interval\<close> is only handed to
  \<^verbatim>\<open>setTimeout\<close>: it decides when the timer ticks happen, not what a tick does.\<close>

definition or_default :: "int option \<Rightarrow> int \<Rightarrow> int" where
  "or_default arg d = (case arg of None \<Rightarrow> d | Some a \<Rightarrow> a)"

definition waitForNestedObject ::
  "int \<Rightarrow> tick list \<Rightarrow> string \<Rightarrow> int option \<Rightarrow> int option \<Rightarrow> wait_result" where
  "waitForNestedObject start ticks nestedPath maxWaitTime interval =
     checkObject start (or_default maxWaitTime 10000) nestedPath 0 ticks"

text \<open>Two predicates on a tick, for the statements below: the awaited field is not there
  yet (the walk gives a falsy value), and the clock is past the deadline.\<close>

definition waiting :: "string \<Rightarrow> tick \<Rightarrow> bool" where
  "waiting nestedPath t =
     (case nestedObj (snd t) nestedPath of Inl e \<Rightarrow> False | Inr v \<Rightarrow> \<not> truthy v)"

definition overdue :: "int \<Rightarrow> int \<Rightarrow> tick \<Rightarrow> bool" where
  "overdue start maxWaitTime t = (fst t - start > maxWaitTime)"

section \<open>The dispatcher: \<^verbatim>\<open>triggerWebhook\<close>\<close>

text \<open>
  \<^verbatim>\<open>
  const enableWebHook = process.env.WEBHOOK_SOCKET_PORT;
  const io = new Server(server);
  const triggerWebhook = (webhookURL, sessionId, dataType, data) => {
    try {
      if (!enableWebHook) return;
      if (data?.message) {
        if (data?.message?.fromMe) return;
        if (data?.message?.id?.participant) return;
        io.emit('paip', data.message);
      }
    } catch (error) {
      console.error('Failed to send new message webhook:', sessionId, dataType, error.message, data || '')
    }
    // axios.post(webhookURL, { dataType, data, sessionId }, { headers: { 'x-api-key': globalApiKey } })
    //   .catch(error => console.error(...))
  }
  \<close>
  A sink is a subscriber connected to the socket server \<^verbatim>\<open>io\<close>; a delivery is one
  event arriving at one sink. \<^verbatim>\<open>io.emit\<close> belongs to the socket library: the
  dispatcher takes it as a parameter, a call that either throws or makes deliveries.
\<close>

type_synonym sink = nat

type_synonym delivery = "sink \<times> string \<times> jsval"

type_synonym emitter = "string \<Rightarrow> jsval \<Rightarrow> js_error + delivery list"

text \<open>Modelled from the spec: the publish operation of the push sink, which the socket
  library (not part of this repository's sources) provides, "accepts one payload and
  fans it out to all currently connected subscribers of a single shared channel".\<close>

definition io_emit :: "sink list \<Rightarrow> emitter" where
  "io_emit sockets ev v = Inr (map (\<lambda>s. (s, ev, v)) sockets)"

text \<open>A call of \<^verbatim>\<open>console.error\<close> with its five arguments, and a call of
  \<^verbatim>\<open>axios.post\<close> with the address and the three fields of the body.\<close>

datatype log_line = ConsoleError string string string string jsval

datatype http_post = AxiosPost string string jsval string

record dispatch_result =
  raised :: "js_error option"
  delivered :: "delivery list"
  logged :: "log_line list"
  posted :: "http_post list"

text \<open>The body of the \<^verbatim>\<open>try\<close>: the deliveries made, or the exception thrown.
  \<open>enableWebHook\<close> is the value of the environment variable, a string or
  \<^verbatim>\<open>undefined\<close>.\<close>

definition triggerWebhook_try :: "emitter \<Rightarrow> jsval \<Rightarrow> jsval \<Rightarrow> js_error + delivery list" where
  "triggerWebhook_try emit enableWebHook data =
     (if \<not> truthy enableWebHook then Inr []
      else if truthy (opt_chain data ''message'') then
        if truthy (opt_chain (opt_chain data ''message'') ''fromMe'') then Inr []
        else if truthy (opt_chain (opt_chain (opt_chain data ''message'') ''id'') ''participant'')
          then Inr []
        else (case member_access data ''message'' of
                Inl e \<Rightarrow> Inl e
              | Inr m \<Rightarrow> emit ''paip'' m)
      else Inr [])"

text \<open>The two tests of the suppression, as one predicate on the payload.\<close>

definition self_originated :: "jsval \<Rightarrow> bool" where
  "self_originated data =
     (truthy (opt_chain (opt_chain data ''message'') ''fromMe'') \<or>
      truthy (opt_chain (opt_chain (opt_chain data ''message'') ''id'') ''participant''))"

text \<open>The whole function: the \<^verbatim>\<open>catch\<close> logs and returns. The call of
  \<^verbatim>\<open>axios.post\<close> is a comment in the source, so no path posts anything.\<close>

definition triggerWebhook ::
  "emitter \<Rightarrow> jsval \<Rightarrow> string \<Rightarrow> string \<Rightarrow> string \<Rightarrow> jsval \<Rightarrow> dispatch_result" where
  "triggerWebhook emit enableWebHook webhookURL sessionId dataType data =
     (case triggerWebhook_try emit enableWebHook data of
        Inr ds \<Rightarrow> \<lparr>raised = None, delivered = ds, logged = [], posted = []\<rparr>
      | Inl error \<Rightarrow>
          \<lparr>raised = None, delivered = [],
           logged = [ConsoleError ''Failed to send new message webhook:'' sessionId dataType
                       (message error) (js_or data (JStr ''''))],
           posted = []\<rparr>)"

text \<open>Modelled from the spec: the call sites that chain the gate and the dispatcher are in
  the session module, which is not among the sources. The spec's control flow is
  "Dispatcher.triggerEvent(sessionId, eventKind, payload) is invoked, Event Gate filters
  by kind, suppression rule filters by origin, surviving events are broadcast": the
  dispatcher runs as the continuation of the gate's promise. The result is \<open>None\<close>
  when the continuation never runs.\<close>

definition dispatch ::
  "string list \<Rightarrow> emitter \<Rightarrow> jsval \<Rightarrow> string \<Rightarrow> string \<Rightarrow> string \<Rightarrow> jsval
     \<Rightarrow> dispatch_result option" where
  "dispatch disabledCallbacks emit enableWebHook webhookURL sessionId eventKind payload =
     then_run (checkIfEventisEnabled disabledCallbacks eventKind)
       (\<lambda>_. triggerWebhook emit enableWebHook webhookURL sessionId eventKind payload)"

text \<open>The deliveries of a dispatch: none when the dispatcher did not run.\<close>

definition deliveries :: "dispatch_result option \<Rightarrow> delivery list" where
  "deliveries r = (case r of None \<Rightarrow> [] | Some d \<Rightarrow> delivered d)"

section \<open>Properties of the walk\<close>

lemma nullish_falsy: "nullish v \<Longrightarrow> \<not> truthy v"
  by (cases v) simp_all

lemma walk_step_Inr: "\<exists>w. walk_step (Inr v) k = Inr w"
  by (simp add: walk_step_def member_access_def nullish_falsy)

lemma foldl_walk_step_Inr: "\<exists>w. foldl walk_step (Inr v) ks = Inr w"
proof (induction ks arbitrary: v)
  case Nil
  show ?case by simp
next
  case (Cons k ks)
  obtain u where "walk_step (Inr v) k = Inr u"
    using walk_step_Inr by blast
  with Cons.IH [of u] show ?case by simp
qed

lemma walk_total: "\<exists>w. walk rootObj ks = Inr w"
  by (simp add: walk_def foldl_walk_step_Inr)

lemma nestedObj_total: "\<exists>w. nestedObj rootObj nestedPath = Inr w"
  by (simp add: nestedObj_def walk_total)

lemma foldl_walk_step_undefined: "foldl walk_step (Inr JUndefined) ks = Inr JUndefined"
  by (induction ks) (simp_all add: walk_step_def)

lemma walk_falsy:
  assumes "\<not> truthy v" and "ks \<noteq> []"
  shows "walk v ks = Inr JUndefined"
proof (cases ks)
  case Nil
  with assms show ?thesis by simp
next
  case (Cons k ks')
  with assms show ?thesis
    by (simp add: walk_def walk_step_def foldl_walk_step_undefined)
qed

lemma walk_append:
  "walk rootObj ks = Inr v \<Longrightarrow> walk rootObj (ks @ ks') = walk v ks'"
  by (simp add: walk_def)

lemma walk_absent_intermediate:
  assumes "walk rootObj ks = Inr v" and "\<not> truthy v" and "ks' \<noteq> []"
  shows "walk rootObj (ks @ ks') = Inr JUndefined"
  using assms by (simp add: walk_append walk_falsy)

section \<open>Properties of the polling loop\<close>

lemma checkObject_waiting:
  assumes "waiting nestedPath t" and "\<not> overdue start maxWaitTime t"
  shows "checkObject start maxWaitTime nestedPath n (t # ticks) =
         checkObject start maxWaitTime nestedPath (Suc n) ticks"
  using assms
  by (cases t) (simp add: waiting_def overdue_def split: sum.splits)

lemma checkObject_found:
  assumes "nestedObj (snd t) nestedPath = Inr v" and "truthy v"
  shows "checkObject start maxWaitTime nestedPath n (t # ticks) =
         \<lparr>state = Fulfilled JUndefined, polls = Suc n, console = []\<rparr>"
  using assms by (cases t) simp

lemma checkObject_overdue:
  assumes "waiting nestedPath t" and "overdue start maxWaitTime t"
  shows "checkObject start maxWaitTime nestedPath n (t # ticks) =
         \<lparr>state = Rejected (Error ''Timeout waiting for nested object''), polls = Suc n,
          console = [''Timed out waiting for nested object'']\<rparr>"
  using assms
  by (cases t) (auto simp: waiting_def overdue_def split: sum.splits)

lemma checkObject_skip:
  assumes "\<forall>t \<in> set pre. waiting nestedPath t \<and> \<not> overdue start maxWaitTime t"
  shows "checkObject start maxWaitTime nestedPath n (pre @ ticks) =
         checkObject start maxWaitTime nestedPath (n + length pre) ticks"
  using assms
proof (induction pre arbitrary: n)
  case Nil
  show ?case by simp
next
  case (Cons t pre)
  then show ?case by (simp add: checkObject_waiting)
qed

lemma checkObject_timeout:
  assumes "\<forall>t \<in> set ticks. waiting nestedPath t"
      and "\<exists>t \<in> set ticks. overdue start maxWaitTime t"
  shows "checkObject start maxWaitTime nestedPath n (ticks @ later) =
         \<lparr>state = Rejected (Error ''Timeout waiting for nested object''),
          polls = Suc (n + length (takeWhile (\<lambda>t. \<not> overdue start maxWaitTime t) ticks)),
          console = [''Timed out waiting for nested object'']\<rparr>"
proof -
  let ?late = "\<lambda>t. \<not> overdue start maxWaitTime t"
  let ?pre = "takeWhile ?late ticks"
  from assms(2) have "dropWhile ?late ticks \<noteq> []"
    by (auto simp: dropWhile_eq_Nil_conv)
  then obtain t rest where split: "dropWhile ?late ticks = t # rest"
    by (cases "dropWhile ?late ticks") auto
  then have late: "overdue start maxWaitTime t"
    using hd_dropWhile [of ?late ticks] by force
  have "t \<in> set ticks"
    using split set_dropWhileD [of t ?late ticks] by simp
  with assms(1) have wait: "waiting nestedPath t"
    by blast
  have pre: "\<forall>t \<in> set ?pre. waiting nestedPath t \<and> \<not> overdue start maxWaitTime t"
    using assms(1) by (auto dest: set_takeWhileD)
  have eq: "ticks @ later = ?pre @ (t # rest @ later)"
    using split takeWhile_dropWhile_id [of ?late ticks] by (metis append_Cons append_assoc)
  have "checkObject start maxWaitTime nestedPath n (ticks @ later) =
        checkObject start maxWaitTime nestedPath n (?pre @ (t # rest @ later))"
    by (simp only: eq)
  also have "\<dots> = checkObject start maxWaitTime nestedPath (n + length ?pre) (t # rest @ later)"
    by (rule checkObject_skip [OF pre])
  also have "\<dots> = \<lparr>state = Rejected (Error ''Timeout waiting for nested object''),
                    polls = Suc (n + length ?pre),
                    console = [''Timed out waiting for nested object'']\<rparr>"
    using checkObject_overdue [OF wait late] by simp
  finally show ?thesis .
qed

section \<open>The event gate\<close>

text \<open>
  Claim C6, as amended. The gate does not return a boolean. For every event name and every
  list of disabled names, \<^verbatim>\<open>checkIfEventisEnabled\<close> returns a promise that is
  fulfilled, with the value \<^verbatim>\<open>undefined\<close>, when the name is not in the list (a name
  the system has never heard of included); the promise is settled exactly for those
  names, so a disabled name gets no answer at all; and the promise is never rejected,
  so there is no other failure.
\<close>

theorem checkIfEventisEnabled_fulfilled_iff_enabled:
  "(event \<notin> set disabledCallbacks \<longrightarrow>
      checkIfEventisEnabled disabledCallbacks event = Fulfilled JUndefined) \<and>
   (settled (checkIfEventisEnabled disabledCallbacks event) \<longleftrightarrow>
      event \<notin> set disabledCallbacks) \<and>
   checkIfEventisEnabled disabledCallbacks event \<noteq> Rejected e \<and>
   checkIfEventisEnabled disabledCallbacks event \<noteq> Uncaught e"
  by (simp add: checkIfEventisEnabled_def)

theorem checkIfEventisEnabled_fulfilled_iff_enabled_witness:
  "''group_join'' \<notin> set [''presence''] \<and>
   checkIfEventisEnabled [''presence''] ''group_join'' = Fulfilled JUndefined \<and>
   settled (checkIfEventisEnabled [''presence''] ''group_join'') \<and>
   checkIfEventisEnabled [''presence''] ''group_join'' \<noteq> Rejected (Error ''disabled'')"
  using checkIfEventisEnabled_fulfilled_iff_enabled
          [of "''group_join''" "[''presence'']" "Error ''disabled''"]
  by simp

text \<open>
  Claim C6 as the spec words it fails: with \<^verbatim>\<open>presence\<close> disabled, asking for
  \<^verbatim>\<open>presence\<close> does not give the answer \<^verbatim>\<open>false\<close>; the promise is pending and not
  settled.
\<close>

theorem checkIfEventisEnabled_no_false_answer:
  "''presence'' \<in> set [''presence''] \<and>
   checkIfEventisEnabled [''presence''] ''presence'' = Pending \<and>
   checkIfEventisEnabled [''presence''] ''presence'' \<noteq> Fulfilled (JBool False) \<and>
   \<not> settled (checkIfEventisEnabled [''presence''] ''presence'')"
  by (simp add: checkIfEventisEnabled_def)

text \<open>
  Claim C9. For every event name in the list of disabled names the promise returned by
  \<^verbatim>\<open>checkIfEventisEnabled\<close> is pending: it is neither fulfilled nor rejected, and
  the continuation of a caller that awaits it never runs. For every name outside the
  list the promise is settled and the continuation runs, with \<^verbatim>\<open>undefined\<close>.
\<close>

theorem checkIfEventisEnabled_pending_when_disabled:
  "(event \<in> set disabledCallbacks \<longrightarrow>
      checkIfEventisEnabled disabledCallbacks event = Pending \<and>
      \<not> settled (checkIfEventisEnabled disabledCallbacks event) \<and>
      then_run (checkIfEventisEnabled disabledCallbacks event) f = None) \<and>
   (event \<notin> set disabledCallbacks \<longrightarrow>
      settled (checkIfEventisEnabled disabledCallbacks event) \<and>
      then_run (checkIfEventisEnabled disabledCallbacks event) f = Some (f JUndefined))"
  by (simp add: checkIfEventisEnabled_def)

theorem checkIfEventisEnabled_pending_when_disabled_witness:
  "(''presence'' \<in> set [''presence'', ''ack''] \<and>
    checkIfEventisEnabled [''presence'', ''ack''] ''presence'' = Pending \<and>
    then_run (checkIfEventisEnabled [''presence'', ''ack''] ''presence'') truthy = None) \<and>
   (''message'' \<notin> set [''presence'', ''ack''] \<and>
    then_run (checkIfEventisEnabled [''presence'', ''ack''] ''message'') truthy = Some False)"
  using checkIfEventisEnabled_pending_when_disabled
          [of "''presence''" "[''presence'', ''ack'']" truthy]
        checkIfEventisEnabled_pending_when_disabled
          [of "''message''" "[''presence'', ''ack'']" truthy]
  by simp

section \<open>The readiness waiter\<close>

text \<open>
  Claim C4, as amended. The waiter tests the value at the end of the path for truth,
  not for presence. For every start time, deadline, path and list of ticks:
  \<^item> the walk never raises an error;
  \<^item> if at a tick some key of the path is reached on a falsy value (an absent
    intermediate key gives \<^verbatim>\<open>undefined\<close>), the walk gives \<^verbatim>\<open>undefined\<close>, the tick
    counts as "not there yet", and unless the deadline has passed the polling goes on
    with the next tick;
  \<^item> the promise is fulfilled at the first tick at which the walk from that tick's root
    gives a truthy value, when every earlier tick was a "not there yet" within the
    deadline; the number of polls is the number of those earlier ticks plus one.
  A field that holds \<^verbatim>\<open>false\<close>, \<^verbatim>\<open>0\<close>, \<^verbatim>\<open>''\<close> or \<^verbatim>\<open>null\<close> counts as not there yet.
\<close>

theorem waitForNestedObject_resolves_when_truthy:
  "(\<exists>w. nestedObj rootObj nestedPath = Inr w) \<and>
   (split_on CHR ''.'' nestedPath = ks @ ks' \<longrightarrow> ks' \<noteq> [] \<longrightarrow>
    walk rootObj ks = Inr u \<longrightarrow> \<not> truthy u \<longrightarrow>
      nestedObj rootObj nestedPath = Inr JUndefined \<and>
      waiting nestedPath (now, rootObj) \<and>
      (\<not> overdue start (or_default maxWaitTime 10000) (now, rootObj) \<longrightarrow>
         waitForNestedObject start ((now, rootObj) # later) nestedPath maxWaitTime interval =
         checkObject start (or_default maxWaitTime 10000) nestedPath 1 later)) \<and>
   ((\<forall>t \<in> set pre. waiting nestedPath t \<and> \<not> overdue start (or_default maxWaitTime 10000) t) \<longrightarrow>
    nestedObj rootObj nestedPath = Inr v \<longrightarrow> truthy v \<longrightarrow>
      waitForNestedObject start (pre @ (now, rootObj) # later) nestedPath maxWaitTime interval =
      \<lparr>state = Fulfilled JUndefined, polls = Suc (length pre), console = []\<rparr>)"
proof (intro conjI impI)
  show "\<exists>w. nestedObj rootObj nestedPath = Inr w"
    by (rule nestedObj_total)
next
  assume path: "split_on CHR ''.'' nestedPath = ks @ ks'" and rest: "ks' \<noteq> []"
     and mid: "walk rootObj ks = Inr u" and falsy: "\<not> truthy u"
  show undef: "nestedObj rootObj nestedPath = Inr JUndefined"
    using walk_absent_intermediate [OF mid falsy rest] path by (simp add: nestedObj_def)
  then show wait: "waiting nestedPath (now, rootObj)"
    by (simp add: waiting_def)
  assume intime: "\<not> overdue start (or_default maxWaitTime 10000) (now, rootObj)"
  show "waitForNestedObject start ((now, rootObj) # later) nestedPath maxWaitTime interval =
        checkObject start (or_default maxWaitTime 10000) nestedPath 1 later"
    unfolding waitForNestedObject_def One_nat_def
    by (rule checkObject_waiting [OF wait intime])
next
  assume pre: "\<forall>t \<in> set pre. waiting nestedPath t \<and> \<not> overdue start (or_default maxWaitTime 10000) t"
     and found: "nestedObj rootObj nestedPath = Inr v" and "truthy v"
  then have "checkObject start (or_default maxWaitTime 10000) nestedPath (0 + length pre)
               ((now, rootObj) # later) =
             \<lparr>state = Fulfilled JUndefined, polls = Suc (length pre), console = []\<rparr>"
    by (simp add: checkObject_found)
  then show "waitForNestedObject start (pre @ (now, rootObj) # later) nestedPath maxWaitTime interval =
             \<lparr>state = Fulfilled JUndefined, polls = Suc (length pre), console = []\<rparr>"
    using checkObject_skip [OF pre, of 0] by (simp add: waitForNestedObject_def)
qed

theorem waitForNestedObject_resolves_when_truthy_witness:
  "(split_on CHR ''.'' ''a.b.c'' = [''a'', ''b''] @ [''c''] \<and> [''c''] \<noteq> [] \<and>
    walk (JObj [(''a'', JObj [])]) [''a'', ''b''] = Inr JUndefined \<and> \<not> truthy JUndefined \<and>
    \<not> overdue 0 (or_default (Some 1000) 10000) (200, JObj [(''a'', JObj [])]) \<and>
    nestedObj (JObj [(''a'', JObj [])]) ''a.b.c'' = Inr JUndefined \<and>
    waitForNestedObject 0 [(200, JObj [(''a'', JObj [])])] ''a.b.c'' (Some 1000) (Some 100) =
      \<lparr>state = Pending, polls = 1, console = []\<rparr>) \<and>
   (waiting ''a.b.c'' (0, JObj [(''a'', JObj [])]) \<and>
    \<not> overdue 0 (or_default (Some 1000) 10000) (0, JObj [(''a'', JObj [])]) \<and>
    waiting ''a.b.c'' (100, JObj [(''a'', JObj [])]) \<and>
    \<not> overdue 0 (or_default (Some 1000) 10000) (100, JObj [(''a'', JObj [])]) \<and>
    waiting ''a.b.c'' (200, JObj [(''a'', JObj [])]) \<and>
    \<not> overdue 0 (or_default (Some 1000) 10000) (200, JObj [(''a'', JObj [])]) \<and>
    nestedObj (JObj [(''a'', JObj [(''b'', JObj [(''c'', JNum 1)])])]) ''a.b.c'' = Inr (JNum 1) \<and>
    truthy (JNum 1) \<and>
    waitForNestedObject 0
      ([(0, JObj [(''a'', JObj [])]), (100, JObj [(''a'', JObj [])]),
        (200, JObj [(''a'', JObj [])])] @
       (300, JObj [(''a'', JObj [(''b'', JObj [(''c'', JNum 1)])])]) #
       [(400, JObj [(''a'', JObj [(''b'', JObj [(''c'', JNum 1)])])])])
      ''a.b.c'' (Some 1000) (Some 100) =
      \<lparr>state = Fulfilled JUndefined, polls = 4, console = []\<rparr>)"
  using waitForNestedObject_resolves_when_truthy
          [where rootObj = "JObj [(''a'', JObj [])]" and nestedPath = "''a.b.c''"
             and ks = "[''a'', ''b'']" and ks' = "[''c'']" and u = JUndefined
             and now = 200 and start = 0 and maxWaitTime = "Some 1000" and later = "[]"
             and interval = "Some 100"]
        waitForNestedObject_resolves_when_truthy
          [where rootObj = "JObj [(''a'', JObj [(''b'', JObj [(''c'', JNum 1)])])]"
             and nestedPath = "''a.b.c''" and now = 300 and start = 0
             and maxWaitTime = "Some 1000" and interval = "Some 100" and v = "JNum 1"
             and pre = "[(0, JObj [(''a'', JObj [])]), (100, JObj [(''a'', JObj [])]),
                        (200, JObj [(''a'', JObj [])])]"
             and later = "[(400, JObj [(''a'', JObj [(''b'', JObj [(''c'', JNum 1)])])])]"]
  by (simp add: nestedObj_def walk_def walk_step_def member_access_def waiting_def
        overdue_def or_default_def)

text \<open>
  Claim C4 as the spec words it fails: the field \<^verbatim>\<open>ready\<close> of the root is there at
  every tick, with the value \<^verbatim>\<open>false\<close>, which is neither \<^verbatim>\<open>undefined\<close> nor
  \<^verbatim>\<open>null\<close>; the wait is not fulfilled at the first tick, nor at any other, and ends
  in the timeout.
\<close>

theorem waitForNestedObject_false_field_times_out:
  "nestedObj (JObj [(''ready'', JBool False)]) ''ready'' = Inr (JBool False) \<and>
   JBool False \<noteq> JUndefined \<and> JBool False \<noteq> JNull \<and>
   waitForNestedObject 0
     [(0, JObj [(''ready'', JBool False)]), (100, JObj [(''ready'', JBool False)]),
      (201, JObj [(''ready'', JBool False)])]
     ''ready'' (Some 200) (Some 100) =
     \<lparr>state = Rejected (Error ''Timeout waiting for nested object''), polls = 3,
      console = [''Timed out waiting for nested object'']\<rparr>"
  by (simp add: waitForNestedObject_def nestedObj_def walk_def walk_step_def
        member_access_def or_default_def)

text \<open>
  Claim C5, as amended. The failure is a plain \<^verbatim>\<open>Error\<close> with a fixed message; it
  carries neither the path nor the elapsed time. For every wait in which the awaited
  field is not there at any tick, and in which some tick comes with the clock more than
  \<^verbatim>\<open>maxWaitTime\<close> past the start: the promise is rejected with
  \<^verbatim>\<open>Error('Timeout waiting for nested object')\<close>; the rejecting poll is the first
  one whose elapsed time is greater than \<^verbatim>\<open>maxWaitTime\<close> (so the elapsed time at
  the failure is at least \<^verbatim>\<open>maxWaitTime\<close>); that poll is the last one, whatever
  ticks would follow.
\<close>

theorem waitForNestedObject_times_out:
  assumes "\<forall>t \<in> set ticks. waiting nestedPath t"
      and "\<exists>t \<in> set ticks. overdue start (or_default maxWaitTime 10000) t"
  shows "waitForNestedObject start (ticks @ later) nestedPath maxWaitTime interval =
           \<lparr>state = Rejected (Error ''Timeout waiting for nested object''),
            polls = Suc (length (takeWhile
                      (\<lambda>t. \<not> overdue start (or_default maxWaitTime 10000) t) ticks)),
                      console = [''Timed out waiting for nested object'']\<rparr> \<and>
         or_default maxWaitTime 10000 <
           fst (ticks ! length (takeWhile
                      (\<lambda>t. \<not> overdue start (or_default maxWaitTime 10000) t) ticks)) - start"
proof
  show "waitForNestedObject start (ticks @ later) nestedPath maxWaitTime interval =
           \<lparr>state = Rejected (Error ''Timeout waiting for nested object''),
            polls = Suc (length (takeWhile
                      (\<lambda>t. \<not> overdue start (or_default maxWaitTime 10000) t) ticks)),
                      console = [''Timed out waiting for nested object'']\<rparr>"
    using checkObject_timeout [OF assms, of 0 later]
    by (simp add: waitForNestedObject_def)
next
  let ?intime = "\<lambda>t. \<not> overdue start (or_default maxWaitTime 10000) t"
  from assms(2) have "dropWhile ?intime ticks \<noteq> []"
    by (auto simp: dropWhile_eq_Nil_conv)
  then have "length (takeWhile ?intime ticks) <
             length (takeWhile ?intime ticks @ dropWhile ?intime ticks)"
    by (simp del: takeWhile_dropWhile_id)
  then have "length (takeWhile ?intime ticks) < length ticks"
    by (simp only: takeWhile_dropWhile_id)
  then have "\<not> ?intime (ticks ! length (takeWhile ?intime ticks))"
    by (rule nth_length_takeWhile)
  then show "or_default maxWaitTime 10000 <
               fst (ticks ! length (takeWhile ?intime ticks)) - start"
    by (simp add: overdue_def)
qed

theorem waitForNestedObject_times_out_witness:
  "waiting ''x.y'' (0, JObj []) \<and> waiting ''x.y'' (100, JObj []) \<and>
   waiting ''x.y'' (200, JObj []) \<and> waiting ''x.y'' (300, JObj []) \<and>
   overdue 0 (or_default (Some 200) 10000) (300, JObj []) \<and>
   waitForNestedObject 0
     ([(0, JObj []), (100, JObj []), (200, JObj []), (300, JObj [])] @ [(400, JObj [])])
     ''x.y'' (Some 200) (Some 100) =
     \<lparr>state = Rejected (Error ''Timeout waiting for nested object''), polls = 4,
      console = [''Timed out waiting for nested object'']\<rparr> \<and>
   (200::int) < 300 - 0"
proof -
  have field: "\<forall>t \<in> set [(0, JObj []), (100, JObj []), (200, JObj []), (300, JObj [])].
                 waiting ''x.y'' t"
    by (simp add: waiting_def nestedObj_def walk_def walk_step_def member_access_def)
  have clock: "\<exists>t \<in> set [(0, JObj []), (100, JObj []), (200, JObj []), (300, JObj [])].
                 overdue 0 (or_default (Some 200) 10000) t"
    by (simp add: overdue_def or_default_def)
  show ?thesis
    using field clock
      waitForNestedObject_times_out [OF field clock, of "[(400, JObj [])]" "Some 100"]
    by (simp add: overdue_def or_default_def)
qed

text \<open>
  Claim C5 as the spec words it fails: two waits, on different paths and failing after
  different elapsed times (300 and 4993 milliseconds), are rejected with one and the same
  value, an \<^verbatim>\<open>Error\<close> whose only content is the fixed message.
\<close>

theorem waitForNestedObject_error_without_path_or_time:
  "state (waitForNestedObject 0
            [(0, JObj []), (100, JObj []), (200, JObj []), (300, JObj [])]
            ''x.y'' (Some 200) (Some 100)) =
     Rejected (Error ''Timeout waiting for nested object'') \<and>
   state (waitForNestedObject 7 [(7, JObj []), (5000, JObj [])]
            ''session.ready'' (Some 1000) (Some 50)) =
     Rejected (Error ''Timeout waiting for nested object'')"
  by (simp add: waitForNestedObject_def nestedObj_def walk_def walk_step_def
        member_access_def or_default_def)

section \<open>The dispatcher\<close>

lemma truthy_message_is_member:
  assumes "truthy (opt_chain data ''message'')"
  shows "member_access data ''message'' = Inr (opt_chain data ''message'')"
  using assms by (cases "nullish data") (simp_all add: opt_chain_def member_access_def)

lemma triggerWebhook_try_emits:
  assumes "truthy enableWebHook" and "truthy (opt_chain data ''message'')"
      and "\<not> self_originated data"
  shows "triggerWebhook_try emit enableWebHook data = emit ''paip'' (opt_chain data ''message'')"
  using assms
  by (simp add: triggerWebhook_try_def self_originated_def truthy_message_is_member)

lemma triggerWebhook_try_drops:
  assumes "\<not> truthy enableWebHook \<or> \<not> truthy (opt_chain data ''message'') \<or> self_originated data"
  shows "triggerWebhook_try emit enableWebHook data = Inr []"
  using assms by (auto simp: triggerWebhook_try_def self_originated_def)

lemma truthy_data:
  assumes "truthy (opt_chain data ''message'')"
  shows "js_or data w = data"
  using assms by (cases data) (simp_all add: opt_chain_def js_or_def)

lemma fan_out_once:
  assumes "distinct sockets" and "s \<in> set sockets"
  shows "length (filter (\<lambda>d. fst d = s) (map (\<lambda>s. (s, ev, v)) sockets)) = 1"
  using assms
proof (induction sockets)
  case Nil
  then show ?case by simp
next
  case (Cons x sockets)
  show ?case
  proof (cases "x = s")
    case True
    with Cons.prems have "s \<notin> set sockets" by simp
    then have "filter (\<lambda>d. fst d = s) (map (\<lambda>s. (s, ev, v)) sockets) = []"
      by (auto simp: filter_empty_conv)
    with True show ?thesis by simp
  next
    case False
    with Cons show ?thesis by simp
  qed
qed

text \<open>
  Claim C1, as amended. What the dispatcher delivers is the message of the payload, not
  the payload, and only a payload with a message is delivered. For every call of
  \<^verbatim>\<open>triggerWebhook\<close>, whatever the event kind, with the push transport enabled and
  a payload whose \<^verbatim>\<open>message\<close> field is truthy and not self-originated (its
  \<^verbatim>\<open>fromMe\<close> and its \<^verbatim>\<open>id.participant\<close> are falsy): the value
  \<^verbatim>\<open>data.message\<close> is delivered on the channel \<^verbatim>\<open>paip\<close> to the connected sinks,
  one delivery for each, so that each of them receives it exactly once; nothing is
  logged and nothing is raised.
\<close>

theorem triggerWebhook_delivers_message_once:
  assumes "truthy enableWebHook"
      and "truthy (opt_chain data ''message'')"
      and "\<not> self_originated data"
  shows "triggerWebhook (io_emit sockets) enableWebHook webhookURL sessionId dataType data =
           \<lparr>raised = None,
            delivered = map (\<lambda>s. (s, ''paip'', opt_chain data ''message'')) sockets,
            logged = [], posted = []\<rparr> \<and>
         (distinct sockets \<longrightarrow>
            (\<forall>s \<in> set sockets.
               length (filter (\<lambda>d. fst d = s)
                 (delivered (triggerWebhook (io_emit sockets) enableWebHook webhookURL
                    sessionId dataType data))) = 1))"
proof -
  have run: "triggerWebhook (io_emit sockets) enableWebHook webhookURL sessionId dataType data =
           \<lparr>raised = None,
            delivered = map (\<lambda>s. (s, ''paip'', opt_chain data ''message'')) sockets,
            logged = [], posted = []\<rparr>"
    using triggerWebhook_try_emits [OF assms, of "io_emit sockets"]
    by (simp add: triggerWebhook_def io_emit_def)
  have sent: "delivered (triggerWebhook (io_emit sockets) enableWebHook webhookURL sessionId
                 dataType data) =
              map (\<lambda>s. (s, ''paip'', opt_chain data ''message'')) sockets"
    by (simp add: run)
  show ?thesis
  proof (intro conjI impI ballI)
    show "triggerWebhook (io_emit sockets) enableWebHook webhookURL sessionId dataType data =
           \<lparr>raised = None,
            delivered = map (\<lambda>s. (s, ''paip'', opt_chain data ''message'')) sockets,
            logged = [], posted = []\<rparr>"
      by (rule run)
  next
    fix s
    assume "distinct sockets" and "s \<in> set sockets"
    then show "length (filter (\<lambda>d. fst d = s)
                 (delivered (triggerWebhook (io_emit sockets) enableWebHook webhookURL
                    sessionId dataType data))) = 1"
      unfolding sent by (rule fan_out_once)
  qed
qed

theorem triggerWebhook_delivers_message_once_witness:
  "truthy (JStr ''3001'') \<and>
   truthy (opt_chain (JObj [(''message'', JObj [(''fromMe'', JBool False), (''body'', JStr ''hi'')])])
             ''message'') \<and>
   \<not> self_originated (JObj [(''message'', JObj [(''fromMe'', JBool False), (''body'', JStr ''hi'')])]) \<and>
   distinct [4, 9 :: nat] \<and>
   triggerWebhook (io_emit [4, 9]) (JStr ''3001'') ''http://hook'' ''s1'' ''message''
     (JObj [(''message'', JObj [(''fromMe'', JBool False), (''body'', JStr ''hi'')])]) =
     \<lparr>raised = None,
      delivered =
        [(4, ''paip'', JObj [(''fromMe'', JBool False), (''body'', JStr ''hi'')]),
         (9, ''paip'', JObj [(''fromMe'', JBool False), (''body'', JStr ''hi'')])],
      logged = [], posted = []\<rparr> \<and>
   length (filter (\<lambda>d. fst d = 4)
     (delivered (triggerWebhook (io_emit [4, 9]) (JStr ''3001'') ''http://hook'' ''s1''
        ''message''
        (JObj [(''message'', JObj [(''fromMe'', JBool False), (''body'', JStr ''hi'')])])))) = 1 \<and>
   length (filter (\<lambda>d. fst d = 9)
     (delivered (triggerWebhook (io_emit [4, 9]) (JStr ''3001'') ''http://hook'' ''s1''
        ''message''
        (JObj [(''message'', JObj [(''fromMe'', JBool False), (''body'', JStr ''hi'')])])))) = 1"
proof -
  have on: "truthy (JStr ''3001'')"
    by simp
  have msg: "truthy (opt_chain
      (JObj [(''message'', JObj [(''fromMe'', JBool False), (''body'', JStr ''hi'')])]) ''message'')"
    by (simp add: opt_chain_def)
  have inbound: "\<not> self_originated
      (JObj [(''message'', JObj [(''fromMe'', JBool False), (''body'', JStr ''hi'')])])"
    by (simp add: self_originated_def opt_chain_def)
  show ?thesis
    using on msg inbound
      triggerWebhook_delivers_message_once [OF on msg inbound,
        of "[4, 9]" "''http://hook''" "''s1''" "''message''"]
    by (simp add: opt_chain_def)
qed

text \<open>
  Claim C1 as the spec words it fails, at the spec's own scenario B: no event kind is
  disabled, the transport is enabled, one sink is connected, and the payload
  \<^verbatim>\<open>{fromMe: false, body: 'hi'}\<close> is not self-originated; it has no \<^verbatim>\<open>message\<close>
  field, and the sink receives nothing.
\<close>

theorem triggerWebhook_scenario_B_no_delivery:
  "''message'' \<notin> set ([] :: string list) \<and>
   truthy (JStr ''3001'') \<and>
   \<not> self_originated (JObj [(''fromMe'', JBool False), (''body'', JStr ''hi'')]) \<and>
   delivered (triggerWebhook (io_emit [0]) (JStr ''3001'') ''http://hook'' ''s1'' ''message''
     (JObj [(''fromMe'', JBool False), (''body'', JStr ''hi'')])) = [] \<and>
   delivered (triggerWebhook (io_emit [0]) (JStr ''3001'') ''http://hook'' ''s1'' ''message''
     (JObj [(''fromMe'', JBool False), (''body'', JStr ''hi'')])) \<noteq>
     [(0, ''paip'', JObj [(''fromMe'', JBool False), (''body'', JStr ''hi'')])]"
  by (simp add: triggerWebhook_def triggerWebhook_try_def self_originated_def opt_chain_def)

text \<open>
  Claim C2. For every payload whose message has a truthy \<^verbatim>\<open>fromMe\<close> (the message was
  written by the session's own identity) or a truthy \<^verbatim>\<open>id.participant\<close> (the echo
  of a group or broadcast), whatever the event kind, the transport setting and the
  behaviour of the socket server: \<^verbatim>\<open>triggerWebhook\<close> delivers to no sink, logs
  nothing and raises nothing.
\<close>

theorem triggerWebhook_suppresses_self_origin:
  assumes "self_originated data"
  shows "triggerWebhook emit enableWebHook webhookURL sessionId dataType data =
           \<lparr>raised = None, delivered = [], logged = [], posted = []\<rparr>"
  using assms by (simp add: triggerWebhook_def triggerWebhook_try_drops)

theorem triggerWebhook_suppresses_self_origin_witness:
  "(self_originated (JObj [(''message'', JObj [(''fromMe'', JBool True), (''body'', JStr ''hi'')])]) \<and>
    triggerWebhook (io_emit [0]) (JStr ''3001'') ''http://hook'' ''s1'' ''message''
      (JObj [(''message'', JObj [(''fromMe'', JBool True), (''body'', JStr ''hi'')])]) =
      \<lparr>raised = None, delivered = [], logged = [], posted = []\<rparr>) \<and>
   (self_originated
      (JObj [(''message'',
         JObj [(''fromMe'', JBool False),
               (''id'', JObj [(''participant'', JStr ''5511@c.us'')])])]) \<and>
    triggerWebhook (io_emit [0]) (JStr ''3001'') ''http://hook'' ''s1'' ''message''
      (JObj [(''message'',
         JObj [(''fromMe'', JBool False),
               (''id'', JObj [(''participant'', JStr ''5511@c.us'')])])]) =
      \<lparr>raised = None, delivered = [], logged = [], posted = []\<rparr>)"
proof -
  have own: "self_originated
      (JObj [(''message'', JObj [(''fromMe'', JBool True), (''body'', JStr ''hi'')])])"
    by (simp add: self_originated_def opt_chain_def)
  have echo: "self_originated
      (JObj [(''message'',
         JObj [(''fromMe'', JBool False),
               (''id'', JObj [(''participant'', JStr ''5511@c.us'')])])])"
    by (simp add: self_originated_def opt_chain_def)
  show ?thesis
    using own echo
      triggerWebhook_suppresses_self_origin [OF own,
        of "io_emit [0]" "JStr ''3001''" "''http://hook''" "''s1''" "''message''"]
      triggerWebhook_suppresses_self_origin [OF echo,
        of "io_emit [0]" "JStr ''3001''" "''http://hook''" "''s1''" "''message''"]
    by simp
qed

text \<open>
  Claim C3. The dispatcher runs as the continuation of the gate's promise. For every
  event kind in the list of disabled kinds, and every payload, self-originated or not:
  the continuation never runs, and the dispatch delivers to no sink.
\<close>

theorem dispatch_disabled_kind_delivers_nothing:
  assumes "eventKind \<in> set disabledCallbacks"
  shows "dispatch disabledCallbacks emit enableWebHook webhookURL sessionId eventKind payload =
           None \<and>
         deliveries (dispatch disabledCallbacks emit enableWebHook webhookURL sessionId
           eventKind payload) = []"
  using assms by (simp add: dispatch_def deliveries_def checkIfEventisEnabled_def)

theorem dispatch_disabled_kind_delivers_nothing_witness:
  "''presence'' \<in> set [''presence''] \<and>
   deliveries (dispatch [''presence''] (io_emit [0]) (JStr ''3001'') ''http://hook'' ''s1''
     ''presence'' (JObj [(''message'', JObj [(''fromMe'', JBool False), (''body'', JStr ''hi'')])])) =
     [] \<and>
   deliveries (dispatch [''presence''] (io_emit [0]) (JStr ''3001'') ''http://hook'' ''s1''
     ''presence'' (JObj [(''message'', JObj [(''fromMe'', JBool True), (''body'', JStr ''hi'')])])) =
     [] \<and>
   deliveries (dispatch [] (io_emit [0]) (JStr ''3001'') ''http://hook'' ''s1''
     ''presence'' (JObj [(''message'', JObj [(''fromMe'', JBool False), (''body'', JStr ''hi'')])])) =
     [(0, ''paip'', JObj [(''fromMe'', JBool False), (''body'', JStr ''hi'')])]"
proof -
  have off: "''presence'' \<in> set [''presence'']"
    by simp
  have enabled: "deliveries (dispatch [] (io_emit [0]) (JStr ''3001'') ''http://hook'' ''s1''
     ''presence'' (JObj [(''message'', JObj [(''fromMe'', JBool False), (''body'', JStr ''hi'')])])) =
     [(0, ''paip'', JObj [(''fromMe'', JBool False), (''body'', JStr ''hi'')])]"
    by (simp add: dispatch_def deliveries_def checkIfEventisEnabled_def triggerWebhook_def
          triggerWebhook_try_def opt_chain_def member_access_def io_emit_def)
  show ?thesis
    using off enabled
      dispatch_disabled_kind_delivers_nothing [OF off, of "io_emit [0]" "JStr ''3001''"
        "''http://hook''" "''s1''"
        "JObj [(''message'', JObj [(''fromMe'', JBool False), (''body'', JStr ''hi'')])]"]
      dispatch_disabled_kind_delivers_nothing [OF off, of "io_emit [0]" "JStr ''3001''"
        "''http://hook''" "''s1''"
        "JObj [(''message'', JObj [(''fromMe'', JBool True), (''body'', JStr ''hi'')])]"]
    by (simp add: deliveries_def)
qed

text \<open>
  Claim C7. For every session id, event kind and payload, and whatever the socket server
  does, \<^verbatim>\<open>triggerWebhook\<close> raises nothing to its caller. An exception thrown inside
  the \<^verbatim>\<open>try\<close> is caught and logged with the session id, the event kind and the
  message of the exception, and nothing else happens; in particular when the payload is
  one that is to be delivered and \<^verbatim>\<open>io.emit\<close> throws.
\<close>

theorem triggerWebhook_never_raises:
  "raised (triggerWebhook emit enableWebHook webhookURL sessionId dataType data) = None \<and>
   (triggerWebhook_try emit enableWebHook data = Inl error \<longrightarrow>
      triggerWebhook emit enableWebHook webhookURL sessionId dataType data =
        \<lparr>raised = None, delivered = [],
         logged = [ConsoleError ''Failed to send new message webhook:'' sessionId dataType
                     (message error) (js_or data (JStr ''''))],
         posted = []\<rparr>) \<and>
   (truthy enableWebHook \<longrightarrow> truthy (opt_chain data ''message'') \<longrightarrow>
    \<not> self_originated data \<longrightarrow> emit ''paip'' (opt_chain data ''message'') = Inl error \<longrightarrow>
      triggerWebhook emit enableWebHook webhookURL sessionId dataType data =
        \<lparr>raised = None, delivered = [],
         logged = [ConsoleError ''Failed to send new message webhook:'' sessionId dataType
                     (message error) data],
         posted = []\<rparr>)"
proof (intro conjI impI)
  show "raised (triggerWebhook emit enableWebHook webhookURL sessionId dataType data) = None"
    by (simp add: triggerWebhook_def split: sum.splits)
next
  assume "triggerWebhook_try emit enableWebHook data = Inl error"
  then show "triggerWebhook emit enableWebHook webhookURL sessionId dataType data =
        \<lparr>raised = None, delivered = [],
         logged = [ConsoleError ''Failed to send new message webhook:'' sessionId dataType
                     (message error) (js_or data (JStr ''''))],
         posted = []\<rparr>"
    by (simp add: triggerWebhook_def)
next
  assume on: "truthy enableWebHook" and msg: "truthy (opt_chain data ''message'')"
     and inbound: "\<not> self_originated data"
     and thrown: "emit ''paip'' (opt_chain data ''message'') = Inl error"
  have "triggerWebhook_try emit enableWebHook data = Inl error"
    using triggerWebhook_try_emits [OF on msg inbound, of emit] thrown by simp
  then show "triggerWebhook emit enableWebHook webhookURL sessionId dataType data =
        \<lparr>raised = None, delivered = [],
         logged = [ConsoleError ''Failed to send new message webhook:'' sessionId dataType
                     (message error) data],
         posted = []\<rparr>"
    by (simp add: triggerWebhook_def truthy_data [OF msg])
qed

theorem triggerWebhook_never_raises_witness:
  "truthy (JStr ''3001'') \<and>
   truthy (opt_chain (JObj [(''message'', JObj [(''body'', JStr ''hi'')])]) ''message'') \<and>
   \<not> self_originated (JObj [(''message'', JObj [(''body'', JStr ''hi'')])]) \<and>
   triggerWebhook_try (\<lambda>ev v. Inl (Error ''socket closed'')) (JStr ''3001'')
     (JObj [(''message'', JObj [(''body'', JStr ''hi'')])]) = Inl (Error ''socket closed'') \<and>
   triggerWebhook (\<lambda>ev v. Inl (Error ''socket closed'')) (JStr ''3001'') ''http://hook'' ''s1''
     ''message'' (JObj [(''message'', JObj [(''body'', JStr ''hi'')])]) =
     \<lparr>raised = None, delivered = [],
      logged = [ConsoleError ''Failed to send new message webhook:'' ''s1'' ''message''
                  ''socket closed'' (JObj [(''message'', JObj [(''body'', JStr ''hi'')])])],
      posted = []\<rparr>"
proof -
  have thrown: "triggerWebhook_try (\<lambda>ev v. Inl (Error ''socket closed'')) (JStr ''3001'')
     (JObj [(''message'', JObj [(''body'', JStr ''hi'')])]) = Inl (Error ''socket closed'')"
    by (simp add: triggerWebhook_try_def opt_chain_def member_access_def)
  have inbound: "\<not> self_originated (JObj [(''message'', JObj [(''body'', JStr ''hi'')])])"
    by (simp add: self_originated_def opt_chain_def)
  show ?thesis
    using thrown inbound
      triggerWebhook_never_raises [of "\<lambda>ev v. Inl (Error ''socket closed'')" "JStr ''3001''"
        "''http://hook''" "''s1''" "''message''"
        "JObj [(''message'', JObj [(''body'', JStr ''hi'')])]" "Error ''socket closed''"]
    by (simp add: opt_chain_def js_or_def)
qed

text \<open>
  Claim C8. For every call of \<^verbatim>\<open>triggerWebhook\<close> made while the push transport is
  not active (the port variable is unset, or empty), whatever the payload and the socket
  server: nothing is delivered, nothing is logged, nothing is raised.
\<close>

theorem triggerWebhook_noop_without_transport:
  assumes "\<not> truthy enableWebHook"
  shows "triggerWebhook emit enableWebHook webhookURL sessionId dataType data =
           \<lparr>raised = None, delivered = [], logged = [], posted = []\<rparr>"
  using assms by (simp add: triggerWebhook_def triggerWebhook_try_drops)

theorem triggerWebhook_noop_without_transport_witness:
  "\<not> truthy JUndefined \<and>
   triggerWebhook (io_emit [0, 1]) JUndefined ''http://hook'' ''s1'' ''message''
     (JObj [(''message'', JObj [(''fromMe'', JBool False), (''body'', JStr ''hi'')])]) =
     \<lparr>raised = None, delivered = [], logged = [], posted = []\<rparr> \<and>
   \<not> truthy (JStr '''') \<and>
   triggerWebhook (\<lambda>ev v. Inl (Error ''socket closed'')) (JStr '''') ''http://hook'' ''s1''
     ''message'' (JObj [(''message'', JObj [(''fromMe'', JBool False), (''body'', JStr ''hi'')])]) =
     \<lparr>raised = None, delivered = [], logged = [], posted = []\<rparr>"
proof -
  have unset: "\<not> truthy JUndefined" and empty: "\<not> truthy (JStr '''')"
    by simp_all
  show ?thesis
    using unset empty
      triggerWebhook_noop_without_transport [OF unset, of "io_emit [0, 1]" "''http://hook''"
        "''s1''" "''message''"
        "JObj [(''message'', JObj [(''fromMe'', JBool False), (''body'', JStr ''hi'')])]"]
      triggerWebhook_noop_without_transport [OF empty,
        of "\<lambda>ev v. Inl (Error ''socket closed'')" "''http://hook''" "''s1''" "''message''"
        "JObj [(''message'', JObj [(''fromMe'', JBool False), (''body'', JStr ''hi'')])]"]
    by simp
qed

text \<open>
  Claim C10. For every call of \<^verbatim>\<open>triggerWebhook\<close>: the deliveries are the same
  whatever the address of the webhook, the session id and the event kind; a payload
  whose \<^verbatim>\<open>message\<close> field is absent or falsy is delivered to no sink; every delivery
  made through the socket server carries exactly \<^verbatim>\<open>data.message\<close>, on the channel
  \<^verbatim>\<open>paip\<close>; and no HTTP request is posted.
\<close>

theorem triggerWebhook_decides_by_payload:
  "delivered (triggerWebhook emit enableWebHook webhookURL sessionId dataType data) =
   delivered (triggerWebhook emit enableWebHook webhookURL' sessionId' dataType' data) \<and>
   (\<not> truthy (opt_chain data ''message'') \<longrightarrow>
      delivered (triggerWebhook emit enableWebHook webhookURL sessionId dataType data) = []) \<and>
   (\<forall>d \<in> set (delivered (triggerWebhook (io_emit sockets) enableWebHook webhookURL sessionId
                        dataType data)).
      snd d = (''paip'', opt_chain data ''message'')) \<and>
   posted (triggerWebhook emit enableWebHook webhookURL sessionId dataType data) = []"
proof (intro conjI impI)
  show "delivered (triggerWebhook emit enableWebHook webhookURL sessionId dataType data) =
        delivered (triggerWebhook emit enableWebHook webhookURL' sessionId' dataType' data)"
    by (simp add: triggerWebhook_def split: sum.splits)
next
  assume "\<not> truthy (opt_chain data ''message'')"
  then show "delivered (triggerWebhook emit enableWebHook webhookURL sessionId dataType data) = []"
    by (simp add: triggerWebhook_def triggerWebhook_try_drops)
next
  show "\<forall>d \<in> set (delivered (triggerWebhook (io_emit sockets) enableWebHook webhookURL sessionId
                        dataType data)).
          snd d = (''paip'', opt_chain data ''message'')"
  proof (cases "truthy enableWebHook \<and> truthy (opt_chain data ''message'') \<and>
                \<not> self_originated data")
    case True
    then show ?thesis
      using triggerWebhook_try_emits [of enableWebHook data "io_emit sockets"]
      by (auto simp: triggerWebhook_def io_emit_def)
  next
    case False
    then have "triggerWebhook_try (io_emit sockets) enableWebHook data = Inr []"
      by (intro triggerWebhook_try_drops) blast
    then show ?thesis
      by (simp add: triggerWebhook_def)
  qed
next
  show "posted (triggerWebhook emit enableWebHook webhookURL sessionId dataType data) = []"
    by (simp add: triggerWebhook_def split: sum.splits)
qed

theorem triggerWebhook_decides_by_payload_witness:
  "\<not> truthy (opt_chain (JObj [(''qr'', JStr ''2@abc'')]) ''message'') \<and>
   delivered (triggerWebhook (io_emit [0]) (JStr ''3001'') ''http://hook'' ''s1'' ''qr''
     (JObj [(''qr'', JStr ''2@abc'')])) = [] \<and>
   delivered (triggerWebhook (io_emit [0]) (JStr ''3001'') ''http://hook'' ''s1'' ''message''
     (JObj [(''message'', JObj [(''body'', JStr ''hi'')])])) =
     [(0, ''paip'', JObj [(''body'', JStr ''hi'')])] \<and>
   delivered (triggerWebhook (io_emit [0]) (JStr ''3001'') ''http://other'' ''s2'' ''qr''
     (JObj [(''message'', JObj [(''body'', JStr ''hi'')])])) =
     [(0, ''paip'', JObj [(''body'', JStr ''hi'')])] \<and>
   snd (0 :: nat, ''paip'', JObj [(''body'', JStr ''hi'')]) =
     (''paip'', opt_chain (JObj [(''message'', JObj [(''body'', JStr ''hi'')])]) ''message'') \<and>
   posted (triggerWebhook (io_emit [0]) (JStr ''3001'') ''http://hook'' ''s1'' ''message''
     (JObj [(''message'', JObj [(''body'', JStr ''hi'')])])) = []"
proof -
  have sent: "delivered (triggerWebhook (io_emit [0]) (JStr ''3001'') ''http://hook'' ''s1''
     ''message'' (JObj [(''message'', JObj [(''body'', JStr ''hi'')])])) =
     [(0, ''paip'', JObj [(''body'', JStr ''hi'')])]"
    by (simp add: triggerWebhook_def triggerWebhook_try_def opt_chain_def member_access_def
          io_emit_def)
  show ?thesis
    using sent
      triggerWebhook_decides_by_payload [of "io_emit [0]" "JStr ''3001''" "''http://hook''"
        "''s1''" "''qr''" "JObj [(''qr'', JStr ''2@abc'')]" "''http://hook''" "''s1''" "''qr''"
        "[0]"]
      triggerWebhook_decides_by_payload [of "io_emit [0]" "JStr ''3001''" "''http://hook''"
        "''s1''" "''message''" "JObj [(''message'', JObj [(''body'', JStr ''hi'')])]"
        "''http://other''" "''s2''" "''qr''" "[0]"]
    by (simp add: opt_chain_def)
qed

end
